theory Spec2Isabelle
  imports Main "HOL-Library.Sublist"
begin

section \<open>The editor host and the machine the extension runs on\<close>

text \<open>
  The extension (\<^verbatim>\<open>src/extension.ts\<close>) is sequential glue around four outside
  collaborators: \<^verbatim>\<open>child_process.execSync\<close>, \<^verbatim>\<open>shelljs.which\<close>, the \<^verbatim>\<open>vscode\<close>
  API and the \<^verbatim>\<open>vscode-languageclient\<close> library. None of them is code of the
  repository, so what they answer is a parameter of the model (the record \<open>host\<close>),
  and every call that does input or output is recorded, in program order, in the
  \<open>trace\<close> of the state. Pure getters (\<^verbatim>\<open>os.platform()\<close>, \<^verbatim>\<open>os.release()\<close>,
  \<^verbatim>\<open>process.env\<close>, \<^verbatim>\<open>extensions.getExtension\<close>, \<^verbatim>\<open>context.asAbsolutePath\<close>) read the
  host and leave no event.

  Three things throw in this program: \<^verbatim>\<open>execSync\<close>, when the command cannot be spawned
  or exits with a non-zero status; the read of a property on \<^verbatim>\<open>undefined\<close>; and
  \<^verbatim>\<open>vscode.commands.registerCommand\<close>, when the identifier is already registered with the
  host (by an earlier activation or by another extension). They are the values of
  \<open>js_error\<close>. The other calls into the host are not documented to throw and return.

  A \<^verbatim>\<open>Buffer\<close> is modelled by its bytes, a JavaScript string by a \<open>string\<close>; decoding
  a buffer with \<^verbatim>\<open>toString()\<close> is then the identity.
\<close>

type_synonym buffer = string

datatype js_error =
    ChildProcessError string  \<comment> \<open>\<^verbatim>\<open>execSync\<close> threw: spawn failure or non-zero exit\<close>
  | TypeError string          \<comment> \<open>property read on \<^verbatim>\<open>undefined\<close>\<close>
  | CommandAlreadyExists string
      \<comment> \<open>\<^verbatim>\<open>registerCommand\<close> threw: the identifier is registered already\<close>

record extension_manifest =
  version :: string

record extension =
  packageJSON :: extension_manifest

record host =
  run_process :: "string \<Rightarrow> buffer option"
    \<comment> \<open>the standard output of a command line run through the shell, \<open>None\<close> when
        \<^verbatim>\<open>execSync\<close> throws\<close>
  which_path :: "string \<Rightarrow> string option"
    \<comment> \<open>\<^verbatim>\<open>shell.which\<close>: the resolved path, \<open>None\<close> for \<^verbatim>\<open>null\<close>\<close>
  env_PATH :: "string option"
    \<comment> \<open>\<^verbatim>\<open>process.env["PATH"]\<close>, \<open>None\<close> for \<^verbatim>\<open>undefined\<close>\<close>
  installed :: "string \<Rightarrow> extension option"
    \<comment> \<open>the extension registry behind \<^verbatim>\<open>vscode.extensions.getExtension\<close>\<close>
  os_platform :: string
  os_release :: string

subsection \<open>Configuration objects handed to the client library\<close>

record document_filter =
  language :: string
  scheme :: string

datatype reveal_output_channel_on = Info | Warn | Error | Never

record file_system_watcher =
  globPattern :: string
  ignoreCreateEvents :: bool
  ignoreChangeEvents :: bool
  ignoreDeleteEvents :: bool

record synchronize_options =
  configurationSection :: string
  fileEvents :: "file_system_watcher list"

record language_client_options =
  documentSelector :: "document_filter list"
  revealOutputChannelOn :: reveal_output_channel_on
  synchronize :: synchronize_options

record executable =
  command :: string
  args :: "string list option"  \<comment> \<open>\<open>None\<close>: the property is not given\<close>

record server_options =
  run :: executable
  debug :: executable

record language_client =
  client_id :: string
  client_name :: string
  serverOptions :: server_options
  clientOptions :: language_client_options

datatype disposable = ClientHandle language_client
  \<comment> \<open>what \<^verbatim>\<open>languageClient.start()\<close> returns\<close>

datatype thenable = Stopping language_client
  \<comment> \<open>what \<^verbatim>\<open>languageClient.stop()\<close> returns\<close>

datatype command_handler = CopyDebugInfo

subsection \<open>Events and state\<close>

datatype event =
    Exec string
  | Which string
  | ShowErrorMessage string
  | ShowInformationMessage string
  | ConsoleWarn string
  | ClipboardWriteText string
  | RegisterCommand string command_handler
  | CreateFileSystemWatcher string
  | NewLanguageClient language_client
  | ClientStart language_client
  | ClientStop language_client

record state =
  trace :: "event list"
  languageClient :: "language_client option"  \<comment> \<open>the module-level \<^verbatim>\<open>let\<close>\<close>
  commands :: "string list"
    \<comment> \<open>the command identifiers registered with the host, by any extension\<close>

record extension_context =
  asAbsolutePath :: "string \<Rightarrow> string"
  subscriptions :: "disposable list"

definition emit :: "event \<Rightarrow> state \<Rightarrow> state" where
  "emit e s = s\<lparr>trace := trace s @ [e]\<rparr>"

text \<open>The events a run adds to the trace: what follows the first \<open>length old\<close> events.\<close>

definition events_since :: "state \<Rightarrow> state \<Rightarrow> event list" where
  "events_since s s' = drop (length (trace s)) (trace s')"

fun is_exec :: "event \<Rightarrow> bool" where
  "is_exec (Exec c) = True"
| "is_exec e = False"

fun is_message :: "event \<Rightarrow> bool" where
  "is_message (ShowErrorMessage m) = True"
| "is_message (ShowInformationMessage m) = True"
| "is_message e = False"

text \<open>JavaScript's truthiness of a \<^verbatim>\<open>string | null\<close> and its rendering in a template
  literal or a concatenation.\<close>

definition truthy :: "string option \<Rightarrow> bool" where
  "truthy v = (case v of None \<Rightarrow> False | Some x \<Rightarrow> x \<noteq> [])"

definition js_string :: "string option \<Rightarrow> string" where
  "js_string v = (case v of None \<Rightarrow> ''undefined'' | Some x \<Rightarrow> x)"

section \<open>Calls into the collaborators\<close>

definition execSync :: "host \<Rightarrow> string \<Rightarrow> state \<Rightarrow> (js_error + buffer) \<times> state" where
  "execSync h cmd s =
     (case run_process h cmd of
        None \<Rightarrow> (Inl (ChildProcessError cmd), emit (Exec cmd) s)
      | Some out \<Rightarrow> (Inr out, emit (Exec cmd) s))"

definition shell_which :: "host \<Rightarrow> string \<Rightarrow> state \<Rightarrow> string option \<times> state" where
  "shell_which h name s = (which_path h name, emit (Which name) s)"

definition getExtension :: "host \<Rightarrow> string \<Rightarrow> extension option" where
  "getExtension h extensionId = installed h extensionId"

definition showErrorMessage :: "string \<Rightarrow> state \<Rightarrow> state" where
  "showErrorMessage m s = emit (ShowErrorMessage m) s"

definition showInformationMessage :: "string \<Rightarrow> state \<Rightarrow> state" where
  "showInformationMessage m s = emit (ShowInformationMessage m) s"

definition console_warn :: "string \<Rightarrow> state \<Rightarrow> state" where
  "console_warn m s = emit (ConsoleWarn m) s"

definition clipboard_writeText :: "string \<Rightarrow> state \<Rightarrow> state" where
  "clipboard_writeText m s = emit (ClipboardWriteText m) s"

text \<open>Registering a command identifier that exists already causes an error; otherwise the
  identifier is added to the host's commands. The call is recorded in both cases. The
  disposable that a registration returns is dropped by the caller and is not modelled.\<close>

definition registerCommand ::
  "string \<Rightarrow> command_handler \<Rightarrow> state \<Rightarrow> (js_error + unit) \<times> state" where
  "registerCommand c f s =
     (if c \<in> set (commands s)
      then (Inl (CommandAlreadyExists c), emit (RegisterCommand c f) s)
      else (Inr (), (emit (RegisterCommand c f) s)\<lparr>commands := commands s @ [c]\<rparr>))"

definition createFileSystemWatcher :: "string \<Rightarrow> state \<Rightarrow> file_system_watcher \<times> state" where
  "createFileSystemWatcher g s =
     (\<lparr>globPattern = g, ignoreCreateEvents = False, ignoreChangeEvents = False,
       ignoreDeleteEvents = False\<rparr>,
      emit (CreateFileSystemWatcher g) s)"

definition new_LanguageClient ::
  "string \<Rightarrow> string \<Rightarrow> server_options \<Rightarrow> language_client_options \<Rightarrow> state
     \<Rightarrow> language_client \<times> state" where
  "new_LanguageClient i n so co s =
     (let c = \<lparr>client_id = i, client_name = n, serverOptions = so, clientOptions = co\<rparr>
      in (c, emit (NewLanguageClient c) s))"

definition start :: "language_client \<Rightarrow> state \<Rightarrow> disposable \<times> state" where
  "start c s = (ClientHandle c, emit (ClientStart c) s)"

definition stop :: "language_client \<Rightarrow> state \<Rightarrow> thenable \<times> state" where
  "stop c s = (Stopping c, emit (ClientStop c) s)"

section \<open>The extension\<close>

subsection \<open>Environment probe\<close>

text \<open>\<^verbatim>\<open>testElixirCommand\<close> returns \<^verbatim>\<open>false | Buffer\<close>: \<open>None\<close> is \<^verbatim>\<open>false\<close>.\<close>

definition testElixirCommand :: "host \<Rightarrow> string \<Rightarrow> state \<Rightarrow> buffer option \<times> state" where
  \<open>testElixirCommand h cmd s =
     (case execSync h (cmd @ '' -e ""'') s of
        (Inr out, s') \<Rightarrow> (Some out, s')
      | (Inl e, s') \<Rightarrow> (None, s'))\<close>

text \<open>\<open>elixirPath\<close> is a \<^verbatim>\<open>string | null\<close>; when it is truthy it is a string, and
  \<open>js_string\<close> hands on that string.\<close>

definition testElixir :: "host \<Rightarrow> state \<Rightarrow> bool \<times> state" where
  \<open>testElixir h s =
     (let (testResult, s1) = testElixirCommand h ''elixir'' s;
          (testResult, s2) =
            (if testResult = None then
               (let (elixirPath, s1') = shell_which h ''elixir'' s1 in
                  if truthy elixirPath
                  then testElixirCommand h (js_string elixirPath) s1'
                  else (testResult, s1'))
             else (testResult, s1))
      in case testResult of
           None \<Rightarrow>
             (let s3 =
                    showErrorMessage
                      ''Failed to run 'elixir' command. ElixirLS will probably fail to launch. Logged PATH to Development Console.''
                      s2;
                  s4 =
                    console_warn
                      (''Failed to run 'elixir' command. Current process's PATH: ''
                         @ js_string (env_PATH h))
                      s3
              in (False, s4))
         | Some out \<Rightarrow>
             if length out > 0 then
               (let s3 =
                      showErrorMessage
                        ''Running 'elixir' command caused extraneous print to stdout. See VS Code's developer console for details.''
                        s2;
                    s4 =
                      console_warn
                        (''Running 'elixir -e ""' printed to stdout:'' @ [CHR 0x0A] @ out)
                        s3
                in (False, s4))
             else (True, s2))\<close>

subsection \<open>Conflict detector\<close>

definition detectConflictingExtension :: "host \<Rightarrow> string \<Rightarrow> state \<Rightarrow> state" where
  "detectConflictingExtension h extensionId s =
     (case getExtension h extensionId of
        Some ext \<Rightarrow>
          showErrorMessage
            (''Warning: '' @ extensionId
               @ '' is not compatible with ElixirLS Fork, please uninstall '' @ extensionId)
            s
      | None \<Rightarrow> s)"

subsection \<open>Debug-info command\<close>

definition copyDebugInfo :: "host \<Rightarrow> state \<Rightarrow> (js_error + unit) \<times> state" where
  "copyDebugInfo h s =
     (case execSync h ''elixir --version'' s of
        (Inl e, s1) \<Rightarrow> (Inl e, s1)
      | (Inr elixirVersion, s1) \<Rightarrow>
          (case getExtension h ''jakebecker.elixir-ls'' of
             None \<Rightarrow> (Inl (TypeError ''packageJSON''), s1)
           | Some ext \<Rightarrow>
               (let message =
                      [CHR 0x0A] @ ''  * Elixir & Erlang versions (elixir --version): ''
                        @ elixirVersion
                        @ [CHR 0x0A] @ ''  * VSCode ElixirLS Fork version: ''
                        @ version (packageJSON ext)
                        @ [CHR 0x0A] @ ''  * Operating System Version: ''
                        @ os_platform h @ '' '' @ os_release h
                        @ [CHR 0x0A] @ ''  '';
                    s2 = showInformationMessage (''Copied to clipboard: '' @ message) s1;
                    s3 = clipboard_writeText message s2
                in (Inr (), s3))))"

subsection \<open>Lifecycle hooks\<close>

text \<open>\<^verbatim>\<open>activate\<close> catches nothing: when the registration of the command throws, the
  statements after it are not run, and what was done before stays done.\<close>

definition activate ::
  "host \<Rightarrow> extension_context \<Rightarrow> state \<Rightarrow> (js_error + extension_context) \<times> state" where
  "activate h context s0 =
     (let (_, s1) = testElixir h s0;
          s2 = detectConflictingExtension h ''mjmcloug.vscode-elixir'' s1;
          s3 = detectConflictingExtension h ''elixir-lsp.elixir-ls'' s2;
          s4 = detectConflictingExtension h ''sammkj.vscode-elixir-formatter'' s3
      in case registerCommand ''extension.copyDebugInfo'' CopyDebugInfo s4 of
           (Inl e, s5) \<Rightarrow> (Inl e, s5)
         | (Inr _, s5) \<Rightarrow>
             (let command =
                    (if os_platform h = ''win32'' then ''language_server.bat''
                     else ''language_server.sh'');
                  serverOpts =
                    \<lparr>command = asAbsolutePath context (''./elixir-ls-release/'' @ command),
                     args = None\<rparr>;
                  serverOptions = \<lparr>run = serverOpts, debug = serverOpts\<rparr>;
                  (watcher, s6) =
                    createFileSystemWatcher ''**/*.{ex,exs,erl,yrl,xrl,eex}'' s5;
                  clientOptions =
                    \<lparr>documentSelector =
                       [\<lparr>language = ''elixir'', scheme = ''file''\<rparr>,
                        \<lparr>language = ''elixir'', scheme = ''untitled''\<rparr>],
                     revealOutputChannelOn = Never,
                     synchronize =
                       \<lparr>configurationSection = ''elixirLS'', fileEvents = [watcher]\<rparr>\<rparr>;
                  (client, s7) =
                    new_LanguageClient ''elixirLS'' ''ElixirLS'' serverOptions clientOptions s6;
                  s8 = s7\<lparr>languageClient := Some client\<rparr>;
                  (disposable, s9) = start client s8
              in (Inr (context\<lparr>subscriptions := subscriptions context @ [disposable]\<rparr>), s9)))"

definition deactivate :: "state \<Rightarrow> thenable option \<times> state" where
  "deactivate s =
     (case languageClient s of
        None \<Rightarrow> (None, s)
      | Some client \<Rightarrow> (case stop client s of (r, s') \<Rightarrow> (Some r, s')))"

section \<open>Notions used in the statements\<close>

text \<open>The literal texts of the source, named for the statements below (abbreviations
  only: each stands for the literal itself).\<close>

abbreviation probe_cmd :: string where
  \<open>probe_cmd \<equiv> ''elixir -e ""''\<close>

abbreviation failed_to_run_warning :: string where
  "failed_to_run_warning \<equiv>
     ''Failed to run 'elixir' command. ElixirLS will probably fail to launch. Logged PATH to Development Console.''"

abbreviation failed_to_run_log :: "host \<Rightarrow> string" where
  "failed_to_run_log h \<equiv>
     ''Failed to run 'elixir' command. Current process's PATH: '' @ js_string (env_PATH h)"

abbreviation extraneous_print_warning :: string where
  "extraneous_print_warning \<equiv>
     ''Running 'elixir' command caused extraneous print to stdout. See VS Code's developer console for details.''"

abbreviation extraneous_print_log :: "buffer \<Rightarrow> string" where
  \<open>extraneous_print_log out \<equiv> ''Running 'elixir -e ""' printed to stdout:'' @ [CHR 0x0A] @ out\<close>

abbreviation conflict_warning :: "string \<Rightarrow> string" where
  "conflict_warning extensionId \<equiv>
     ''Warning: '' @ extensionId
       @ '' is not compatible with ElixirLS Fork, please uninstall '' @ extensionId"

abbreviation watched_glob :: string where
  "watched_glob \<equiv> ''**/*.{ex,exs,erl,yrl,xrl,eex}''"

text \<open>The two phases of \<open>testElixir\<close>, as functions of the host alone. They serve the
  proofs: \<open>probe_result\<close> is the final value of \<^verbatim>\<open>testResult\<close>, \<open>probe_calls\<close> the calls
  made to obtain it, \<open>report\<close> the events of the \<^verbatim>\<open>if\<close> chain that follows.\<close>

definition probe_result :: "host \<Rightarrow> buffer option" where
  \<open>probe_result h =
     (case run_process h probe_cmd of
        Some out \<Rightarrow> Some out
      | None \<Rightarrow>
          if truthy (which_path h ''elixir'')
          then run_process h (js_string (which_path h ''elixir'') @ '' -e ""'')
          else None)\<close>

definition probe_calls :: "host \<Rightarrow> event list" where
  \<open>probe_calls h =
     Exec probe_cmd #
     (case run_process h probe_cmd of
        Some out \<Rightarrow> []
      | None \<Rightarrow>
          Which ''elixir'' #
          (if truthy (which_path h ''elixir'')
           then [Exec (js_string (which_path h ''elixir'') @ '' -e ""'')]
           else []))\<close>

definition report :: "host \<Rightarrow> buffer option \<Rightarrow> event list" where
  "report h r =
     (case r of
        None \<Rightarrow> [ShowErrorMessage failed_to_run_warning, ConsoleWarn (failed_to_run_log h)]
      | Some out \<Rightarrow>
          if out = [] then []
          else [ShowErrorMessage extraneous_print_warning, ConsoleWarn (extraneous_print_log out)])"

text \<open>A document selector of the client library selects a document when one of its
  filters agrees with the document on every property the filter gives; the filters
  built here give language and scheme.\<close>

fun selects :: "document_filter list \<Rightarrow> string \<Rightarrow> string \<Rightarrow> bool" where
  "selects [] l u = False"
| "selects (f # fs) l u = (language f = l \<and> scheme f = u \<or> selects fs l u)"

text \<open>The events of one conflict check and the client that \<open>activate\<close> builds, as
  functions of the host and the context; they serve the proofs as well.\<close>

definition conflict_events :: "host \<Rightarrow> string \<Rightarrow> event list" where
  "conflict_events h extensionId =
     (case installed h extensionId of
        Some ext \<Rightarrow> [ShowErrorMessage (conflict_warning extensionId)]
      | None \<Rightarrow> [])"

definition launched_client :: "host \<Rightarrow> extension_context \<Rightarrow> language_client" where
  "launched_client h context =
     (let exe =
            \<lparr>command =
               asAbsolutePath context
                 (''./elixir-ls-release/''
                    @ (if os_platform h = ''win32'' then ''language_server.bat''
                       else ''language_server.sh'')),
             args = None\<rparr>
      in \<lparr>client_id = ''elixirLS'', client_name = ''ElixirLS'',
          serverOptions = \<lparr>run = exe, debug = exe\<rparr>,
          clientOptions =
            \<lparr>documentSelector =
               [\<lparr>language = ''elixir'', scheme = ''file''\<rparr>,
                \<lparr>language = ''elixir'', scheme = ''untitled''\<rparr>],
             revealOutputChannelOn = Never,
             synchronize =
               \<lparr>configurationSection = ''elixirLS'',
                fileEvents =
                  [\<lparr>globPattern = watched_glob, ignoreCreateEvents = False,
                    ignoreChangeEvents = False, ignoreDeleteEvents = False\<rparr>]\<rparr>\<rparr>\<rparr>)"

text \<open>The events of an activation up to and including the registration of the command.\<close>

definition preamble_events :: "host \<Rightarrow> event list" where
  "preamble_events h =
     probe_calls h @ report h (probe_result h)
       @ conflict_events h ''mjmcloug.vscode-elixir''
       @ conflict_events h ''elixir-lsp.elixir-ls''
       @ conflict_events h ''sammkj.vscode-elixir-formatter''
       @ [RegisterCommand ''extension.copyDebugInfo'' CopyDebugInfo]"

text \<open>Selections of events: the calls of the probe (process executions and path
  searches) and the creations of file-system watchers.\<close>

fun is_probe_call :: "event \<Rightarrow> bool" where
  "is_probe_call (Exec c) = True"
| "is_probe_call (Which n) = True"
| "is_probe_call e = False"

fun is_watcher :: "event \<Rightarrow> bool" where
  "is_watcher (CreateFileSystemWatcher g) = True"
| "is_watcher e = False"

text \<open>\<^verbatim>\<open>context.asAbsolutePath\<close> belongs to the host. What the statements need of it is
  that resolving a path keeps its last segment when that segment is a plain file name
  (as joining and normalising a path does).\<close>

definition is_file_name :: "string \<Rightarrow> bool" where
  "is_file_name f =
     (f \<noteq> [] \<and> CHR ''/'' \<notin> set f \<and> CHR 0x5C \<notin> set f \<and> f \<noteq> ''.'' \<and> f \<noteq> ''..'')"

definition keeps_file_name :: "(string \<Rightarrow> string) \<Rightarrow> bool" where
  "keeps_file_name resolve =
     (\<forall>d f. is_file_name f \<longrightarrow> suffix f (resolve (d @ ''/'' @ f)))"

subsection \<open>Concrete hosts\<close>

text \<open>The state of the module when it has been loaded and nothing has run: the
  exported \<^verbatim>\<open>languageClient\<close> is declared without an initialiser.\<close>

definition init_state :: state where
  "init_state = \<lparr>trace = [], languageClient = None, commands = []\<rparr>"

text \<open>The same module in a host where the identifier of the debug-info command is held
  already, as it is after an earlier activation in the same host or when another
  extension has registered it.\<close>

definition taken_state :: state where
  "taken_state =
     \<lparr>trace = [], languageClient = None, commands = [''extension.copyDebugInfo'']\<rparr>"

definition example_host ::
  "(string \<Rightarrow> buffer option) \<Rightarrow> (string \<Rightarrow> string option) \<Rightarrow> (string \<Rightarrow> extension option)
     \<Rightarrow> string \<Rightarrow> host" where
  "example_host r w e p =
     \<lparr>run_process = r, which_path = w, env_PATH = Some ''/usr/bin:/bin'', installed = e,
      os_platform = p, os_release = ''5.15.0''\<rparr>"

text \<open>Machines: one whose \<^verbatim>\<open>elixir\<close> prints at start-up, one with no process that runs,
  one whose \<^verbatim>\<open>elixir\<close> is quiet, and one where only the absolute path runs.\<close>

definition noisy_elixir :: "string \<Rightarrow> buffer option" where
  \<open>noisy_elixir c = (if c = ''elixir -e ""'' then Some ''hello'' else None)\<close>

definition no_process :: "string \<Rightarrow> buffer option" where
  "no_process c = None"

definition quiet_elixir :: "string \<Rightarrow> buffer option" where
  \<open>quiet_elixir c =
     (if c = ''elixir -e ""'' then Some []
      else if c = ''elixir --version'' then Some ''Elixir 1.10.4''
      else None)\<close>

definition absolute_elixir :: "string \<Rightarrow> buffer option" where
  \<open>absolute_elixir c =
     (if c = ''/opt/elixir/bin/elixir -e ""'' then Some []
      else if c = ''/opt/elixir/bin/elixir --version'' then Some ''Elixir 1.10.4''
      else None)\<close>

definition which_opt :: "string \<Rightarrow> string option" where
  "which_opt n = (if n = ''elixir'' then Some ''/opt/elixir/bin/elixir'' else None)"

definition which_nothing :: "string \<Rightarrow> string option" where
  "which_nothing n = None"

text \<open>Registries: an empty one, one holding the upstream extension, and one holding a
  conflicting formatter.\<close>

definition no_extensions :: "string \<Rightarrow> extension option" where
  "no_extensions i = None"

definition upstream_installed :: "string \<Rightarrow> extension option" where
  "upstream_installed i =
     (if i = ''jakebecker.elixir-ls'' then Some \<lparr>packageJSON = \<lparr>version = ''0.2.25''\<rparr>\<rparr>
      else None)"

definition formatter_installed :: "string \<Rightarrow> extension option" where
  "formatter_installed i =
     (if i = ''sammkj.vscode-elixir-formatter''
      then Some \<lparr>packageJSON = \<lparr>version = ''1.0.0''\<rparr>\<rparr> else None)"

definition fork_installed :: "string \<Rightarrow> extension option" where
  "fork_installed i =
     (if i = ''publisher.elixir-ls-fork'' then Some \<lparr>packageJSON = \<lparr>version = ''0.3.0''\<rparr>\<rparr>
      else None)"

text \<open>An installation directory; \<^verbatim>\<open>asAbsolutePath\<close> joins it with the relative path.\<close>

definition example_context :: extension_context where
  "example_context =
     \<lparr>asAbsolutePath =
        (\<lambda>rel. ''/home/u/.vscode/extensions/elixir-ls-fork/''
                  @ (if take 2 rel = ''./'' then drop 2 rel else rel)),
      subscriptions = []\<rparr>"

section \<open>Basic facts\<close>

lemmas call_defs = execSync_def shell_which_def getExtension_def showErrorMessage_def
  showInformationMessage_def console_warn_def clipboard_writeText_def registerCommand_def
  createFileSystemWatcher_def new_LanguageClient_def start_def stop_def emit_def

lemmas example_defs = example_host_def init_state_def noisy_elixir_def no_process_def
  taken_state_def quiet_elixir_def absolute_elixir_def which_opt_def which_nothing_def no_extensions_def
  upstream_installed_def formatter_installed_def fork_installed_def example_context_def

lemma events_since_append: "trace s' = trace s @ es \<Longrightarrow> events_since s s' = es"
  by (simp add: events_since_def)

lemma testElixir_eq:
  "testElixir h s =
     (probe_result h = Some [],
      s\<lparr>trace := trace s @ probe_calls h @ report h (probe_result h)\<rparr>)"
  by (simp add: testElixir_def testElixirCommand_def call_defs report_def probe_result_def
      probe_calls_def split: option.splits)

lemma testElixir_events:
  "testElixir h s = (r, s') \<Longrightarrow> events_since s s' = probe_calls h @ report h (probe_result h)"
  by (rule events_since_append) (auto simp: testElixir_eq)

lemma testElixir_result:
  "testElixir h s = (r, s') \<Longrightarrow> r = (probe_result h = Some [])"
  by (simp add: testElixir_eq)

lemma detectConflictingExtension_eq:
  "detectConflictingExtension h extensionId s =
     s\<lparr>trace := trace s @ conflict_events h extensionId\<rparr>"
  by (simp add: detectConflictingExtension_def conflict_events_def call_defs split: option.splits)

lemma activate_eq:
  assumes "''extension.copyDebugInfo'' \<notin> set (commands s)"
  shows "activate h context s =
     (Inr (context\<lparr>subscriptions :=
                      subscriptions context @ [ClientHandle (launched_client h context)]\<rparr>),
      s\<lparr>trace :=
           trace s @ preamble_events h
             @ [CreateFileSystemWatcher watched_glob,
                NewLanguageClient (launched_client h context),
                ClientStart (launched_client h context)],
         languageClient := Some (launched_client h context),
         commands := commands s @ [''extension.copyDebugInfo'']\<rparr>)"
  using assms
  by (simp add: activate_def testElixir_eq detectConflictingExtension_eq call_defs
      launched_client_def preamble_events_def Let_def)

lemma activate_taken:
  assumes "''extension.copyDebugInfo'' \<in> set (commands s)"
  shows "activate h context s =
     (Inl (CommandAlreadyExists ''extension.copyDebugInfo''),
      s\<lparr>trace := trace s @ preamble_events h\<rparr>)"
  using assms
  by (simp add: activate_def testElixir_eq detectConflictingExtension_eq call_defs
      preamble_events_def Let_def)

lemma activate_events:
  "events_since s (snd (activate h context s)) =
     preamble_events h
       @ (if ''extension.copyDebugInfo'' \<in> set (commands s) then []
          else [CreateFileSystemWatcher watched_glob,
                NewLanguageClient (launched_client h context),
                ClientStart (launched_client h context)])"
  by (rule events_since_append) (simp add: activate_eq activate_taken)

lemma preamble_events_no_client:
  "NewLanguageClient c \<notin> set (preamble_events h)"
  "ClientStart c \<notin> set (preamble_events h)"
  "CreateFileSystemWatcher g \<notin> set (preamble_events h)"
  "filter is_watcher (preamble_events h) = []"
  by (simp_all add: preamble_events_def probe_calls_def report_def conflict_events_def
      split: option.splits)

section \<open>The environment probe\<close>

text \<open>
  Claim C1. When a run of the probe executes the runtime successfully (at the first
  attempt, or at the retry with the resolved path) and the output is not empty, the only
  message shown is the "extraneous print" warning, the "failed to run" warning is not
  among the events of the run, the captured output is logged to the console, and the probe
  returns \<^verbatim>\<open>false\<close>. The "failed to run" warning appears among the events of a run only if the
  direct attempt failed and either no path was resolved or the retry failed as well.
\<close>

theorem testElixir_extraneous_print:
  assumes "testElixir h s = (r, s')"
  shows \<open>(\<forall>out. out \<noteq> [] \<and>
            (run_process h ''elixir -e ""'' = Some out \<or>
             run_process h ''elixir -e ""'' = None \<and> truthy (which_path h ''elixir'') \<and>
             run_process h (js_string (which_path h ''elixir'') @ '' -e ""'') = Some out) \<longrightarrow>
            filter is_message (events_since s s') = [ShowErrorMessage extraneous_print_warning] \<and>
            ShowErrorMessage failed_to_run_warning \<notin> set (events_since s s') \<and>
            ConsoleWarn (extraneous_print_log out) \<in> set (events_since s s') \<and>
            r = False) \<and>
         (ShowErrorMessage failed_to_run_warning \<in> set (events_since s s') \<longrightarrow>
            run_process h ''elixir -e ""'' = None \<and>
            (\<not> truthy (which_path h ''elixir'') \<or>
             run_process h (js_string (which_path h ''elixir'') @ '' -e ""'') = None))\<close>
proof -
  have ev: "events_since s s' = probe_calls h @ report h (probe_result h)"
    using assms by (rule testElixir_events)
  have r: "r = (probe_result h = Some [])"
    using assms by (rule testElixir_result)
  show ?thesis
    unfolding ev r
    by (auto simp: probe_calls_def probe_result_def report_def split: option.splits)
qed

theorem testElixir_extraneous_print_witness:
  \<open>testElixir (example_host noisy_elixir which_nothing no_extensions ''linux'') init_state =
     (False,
      \<lparr>trace = [Exec ''elixir -e ""'', ShowErrorMessage extraneous_print_warning,
                ConsoleWarn (extraneous_print_log ''hello'')],
       languageClient = None, commands = []\<rparr>) \<and>
   testElixir (example_host no_process which_nothing no_extensions ''linux'') init_state =
     (False,
      \<lparr>trace = [Exec ''elixir -e ""'', Which ''elixir'',
                ShowErrorMessage failed_to_run_warning,
                ConsoleWarn ''Failed to run 'elixir' command. Current process's PATH: /usr/bin:/bin''],
       languageClient = None, commands = []\<rparr>) \<and>
   run_process (example_host no_process which_nothing no_extensions ''linux'') ''elixir -e ""''
     = None\<close>
proof -
  let ?noisy = "example_host noisy_elixir which_nothing no_extensions ''linux''"
  let ?none = "example_host no_process which_nothing no_extensions ''linux''"
  let ?s1 = \<open>\<lparr>trace = [Exec ''elixir -e ""'', ShowErrorMessage extraneous_print_warning,
                ConsoleWarn (extraneous_print_log ''hello'')],
       languageClient = None, commands = []\<rparr>\<close>
  let ?s2 = \<open>\<lparr>trace = [Exec ''elixir -e ""'', Which ''elixir'',
                ShowErrorMessage failed_to_run_warning,
                ConsoleWarn ''Failed to run 'elixir' command. Current process's PATH: /usr/bin:/bin''],
       languageClient = None, commands = []\<rparr>\<close>
  have run1: "testElixir ?noisy init_state = (False, ?s1)"
    by (simp add: testElixir_def testElixirCommand_def call_defs example_defs)
  have run2: "testElixir ?none init_state = (False, ?s2)"
    by (simp add: testElixir_def testElixirCommand_def call_defs example_defs truthy_def
        js_string_def)
  have out: \<open>''hello'' \<noteq> [] \<and> run_process ?noisy ''elixir -e ""'' = Some ''hello''\<close>
    by (simp add: example_defs)
  have shown: "ShowErrorMessage failed_to_run_warning \<in> set (events_since init_state ?s2)"
    by (simp add: events_since_def init_state_def)
  from testElixir_extraneous_print [OF run1] out
  have "ShowErrorMessage failed_to_run_warning \<notin> set (events_since init_state ?s1)"
    by blast
  moreover from testElixir_extraneous_print [OF run2] shown
  have \<open>run_process ?none ''elixir -e ""'' = None\<close>
    by blast
  ultimately show ?thesis using run1 run2 by simp
qed

text \<open>
  Claim C3. The first event of every run of the probe is the direct invocation
  \<^verbatim>\<open>elixir -e ""\<close>. The path search is called exactly when that invocation fails, and
  the retry, with the resolved path, is executed exactly when the search returns a
  (non-empty) path: the calls of a run are one or two process executions, with the
  search between them. When the direct invocation fails and there is no resolved path or
  the retry fails too, exactly one message is shown, the warning that names \<^verbatim>\<open>elixir\<close>;
  the search path of the process is logged to the console and the probe returns
  \<^verbatim>\<open>false\<close>.
\<close>

theorem testElixir_attempts:
  assumes "testElixir h s = (r, s')"
  shows \<open>(\<exists>rest. events_since s s' = Exec ''elixir -e ""'' # rest) \<and>
         filter is_probe_call (events_since s s') =
           (if run_process h ''elixir -e ""'' = None
            then [Exec ''elixir -e ""'', Which ''elixir'']
                   @ (if truthy (which_path h ''elixir'')
                      then [Exec (js_string (which_path h ''elixir'') @ '' -e ""'')] else [])
            else [Exec ''elixir -e ""'']) \<and>
         1 \<le> length (filter is_exec (events_since s s')) \<and>
         length (filter is_exec (events_since s s')) \<le> 2 \<and>
         (run_process h ''elixir -e ""'' = None \<and>
            (\<not> truthy (which_path h ''elixir'') \<or>
             run_process h (js_string (which_path h ''elixir'') @ '' -e ""'') = None) \<longrightarrow>
            filter is_message (events_since s s') = [ShowErrorMessage failed_to_run_warning] \<and>
            sublist ''elixir'' failed_to_run_warning \<and>
            ConsoleWarn
              (''Failed to run 'elixir' command. Current process's PATH: ''
                 @ js_string (env_PATH h)) \<in> set (events_since s s') \<and>
            r = False)\<close>
proof -
  have ev: "events_since s s' = probe_calls h @ report h (probe_result h)"
    using assms by (rule testElixir_events)
  have r: "r = (probe_result h = Some [])"
    using assms by (rule testElixir_result)
  have "failed_to_run_warning = (''Failed to run '' @ [CHR 0x27]) @ ''elixir'' @
      ([CHR 0x27] @ '' command. ElixirLS will probably fail to launch. Logged PATH to Development Console.'')"
    by simp
  then have names: "sublist ''elixir'' failed_to_run_warning"
    unfolding sublist_def by blast
  show ?thesis
    unfolding ev r using names
    by (auto simp: probe_calls_def probe_result_def report_def split: option.splits)
qed

theorem testElixir_attempts_witness:
  \<open>testElixir (example_host no_process which_opt no_extensions ''linux'') init_state =
     (False,
      \<lparr>trace = [Exec ''elixir -e ""'', Which ''elixir'', Exec ''/opt/elixir/bin/elixir -e ""'',
                ShowErrorMessage failed_to_run_warning,
                ConsoleWarn ''Failed to run 'elixir' command. Current process's PATH: /usr/bin:/bin''],
       languageClient = None, commands = []\<rparr>) \<and>
   length (filter is_exec (events_since init_state
     (snd (testElixir (example_host no_process which_opt no_extensions ''linux'') init_state)))) \<le> 2\<close>
proof -
  let ?h = "example_host no_process which_opt no_extensions ''linux''"
  let ?s = \<open>\<lparr>trace = [Exec ''elixir -e ""'', Which ''elixir'', Exec ''/opt/elixir/bin/elixir -e ""'',
                ShowErrorMessage failed_to_run_warning,
                ConsoleWarn ''Failed to run 'elixir' command. Current process's PATH: /usr/bin:/bin''],
       languageClient = None, commands = []\<rparr>\<close>
  have run: "testElixir ?h init_state = (False, ?s)"
    by (simp add: testElixir_def testElixirCommand_def call_defs example_defs truthy_def
        js_string_def)
  have unavailable: \<open>run_process ?h ''elixir -e ""'' = None \<and>
      (\<not> truthy (which_path ?h ''elixir'') \<or>
       run_process ?h (js_string (which_path ?h ''elixir'') @ '' -e ""'') = None)\<close>
    by (simp add: example_defs)
  from testElixir_attempts [OF run] unavailable
  have "length (filter is_exec (events_since init_state ?s)) \<le> 2"
    by blast
  with run show ?thesis by simp
qed

section \<open>The conflict detector\<close>

text \<open>
  Claim C5. The conflict detector changes nothing in the state but the trace. When the
  registry holds the identifier, the events it adds are exactly one warning, whose text
  contains the identifier; when the registry does not hold it, it adds no event. It has no
  error result, and the activation that calls it ends with a client set whenever the
  registration of the command that follows it is accepted.
\<close>

theorem detectConflictingExtension_warns:
  "detectConflictingExtension h extensionId s =
     s\<lparr>trace := trace s @ events_since s (detectConflictingExtension h extensionId s)\<rparr> \<and>
   (installed h extensionId \<noteq> None \<longrightarrow>
      events_since s (detectConflictingExtension h extensionId s) =
        [ShowErrorMessage
           (''Warning: '' @ extensionId
              @ '' is not compatible with ElixirLS Fork, please uninstall '' @ extensionId)] \<and>
      sublist extensionId
        (''Warning: '' @ extensionId
           @ '' is not compatible with ElixirLS Fork, please uninstall '' @ extensionId)) \<and>
   (installed h extensionId = None \<longrightarrow>
      events_since s (detectConflictingExtension h extensionId s) = []) \<and>
   (''extension.copyDebugInfo'' \<notin> set (commands s) \<longrightarrow>
      languageClient (snd (activate h context s)) \<noteq> None)"
proof -
  have ev: "events_since s (detectConflictingExtension h extensionId s)
      = conflict_events h extensionId"
    by (rule events_since_append) (simp add: detectConflictingExtension_eq)
  have names: "sublist extensionId (conflict_warning extensionId)"
    unfolding sublist_def by blast
  show ?thesis
    unfolding ev using names
    by (auto simp: detectConflictingExtension_eq activate_eq conflict_events_def)
qed

theorem detectConflictingExtension_warns_witness:
  "detectConflictingExtension (example_host quiet_elixir which_nothing formatter_installed ''linux'')
     ''sammkj.vscode-elixir-formatter'' init_state =
     \<lparr>trace =
        [ShowErrorMessage
           ''Warning: sammkj.vscode-elixir-formatter is not compatible with ElixirLS Fork, please uninstall sammkj.vscode-elixir-formatter''],
      languageClient = None, commands = []\<rparr> \<and>
   detectConflictingExtension (example_host quiet_elixir which_nothing formatter_installed ''linux'')
     ''mjmcloug.vscode-elixir'' init_state = init_state"
proof -
  let ?h = "example_host quiet_elixir which_nothing formatter_installed ''linux''"
  have present: "installed ?h ''sammkj.vscode-elixir-formatter'' \<noteq> None"
    and absent: "installed ?h ''mjmcloug.vscode-elixir'' = None"
    by (simp_all add: example_defs)
  from detectConflictingExtension_warns [of ?h "''sammkj.vscode-elixir-formatter''" init_state]
    present
  have "detectConflictingExtension ?h ''sammkj.vscode-elixir-formatter'' init_state =
      init_state\<lparr>trace := trace init_state @
        [ShowErrorMessage (conflict_warning ''sammkj.vscode-elixir-formatter'')]\<rparr>"
    by metis
  moreover
  from detectConflictingExtension_warns [of ?h "''mjmcloug.vscode-elixir''" init_state] absent
  have "detectConflictingExtension ?h ''mjmcloug.vscode-elixir'' init_state =
      init_state\<lparr>trace := trace init_state @ []\<rparr>"
    by metis
  ultimately show ?thesis by (simp add: init_state_def)
qed

section \<open>Activation\<close>

text \<open>
  Claim C2, as stated, fails where the host already holds the identifier
  \<^verbatim>\<open>extension.copyDebugInfo\<close>: on a machine whose probe succeeds and whose registry has
  no conflicting extension, the registration throws, and the activation ends in that
  error after two events, with no client constructed or started and the handle unset.
\<close>

theorem activate_taken_counterexample:
  \<open>activate (example_host quiet_elixir which_nothing no_extensions ''linux'') example_context
     taken_state =
     (Inl (CommandAlreadyExists ''extension.copyDebugInfo''),
      \<lparr>trace = [Exec ''elixir -e ""'', RegisterCommand ''extension.copyDebugInfo'' CopyDebugInfo],
       languageClient = None, commands = [''extension.copyDebugInfo'']\<rparr>)\<close>
  by (simp add: activate_def testElixir_eq detectConflictingExtension_eq call_defs
      probe_calls_def probe_result_def report_def conflict_events_def example_defs)

text \<open>
  Claim C2, amended. For every host (whatever the probe returns and whatever the registry
  of extensions holds), every context and every prior state in which the identifier
  \<^verbatim>\<open>extension.copyDebugInfo\<close> is not registered yet, activation returns normally: it runs
  the probe, registers the command, then constructs the client and starts it as its last
  two events, stores the client in the module-level handle and appends the handle
  returned by the start to the subscriptions of the context. No outcome of the probe or
  of the conflict checks makes a difference to this. In a state in which the identifier
  is registered already, activation ends in the error of the registration, before any
  client is constructed, and leaves the module-level handle as it was.
\<close>

theorem activate_starts_client_unless_taken:
  "(''extension.copyDebugInfo'' \<notin> set (commands s) \<longrightarrow>
      (\<exists>client mid.
         activate h context s =
           (Inr (context\<lparr>subscriptions := subscriptions context @ [ClientHandle client]\<rparr>),
            s\<lparr>trace :=
                 trace (snd (testElixir h s)) @ mid
                   @ [NewLanguageClient client, ClientStart client],
               languageClient := Some client,
               commands := commands s @ [''extension.copyDebugInfo'']\<rparr>))) \<and>
   (''extension.copyDebugInfo'' \<in> set (commands s) \<longrightarrow>
      fst (activate h context s) = Inl (CommandAlreadyExists ''extension.copyDebugInfo'') \<and>
      languageClient (snd (activate h context s)) = languageClient s \<and>
      (\<forall>client.
         NewLanguageClient client \<notin> set (events_since s (snd (activate h context s))) \<and>
         ClientStart client \<notin> set (events_since s (snd (activate h context s)))))"
proof (intro conjI impI)
  assume free: "''extension.copyDebugInfo'' \<notin> set (commands s)"
  let ?mid = "conflict_events h ''mjmcloug.vscode-elixir''
      @ conflict_events h ''elixir-lsp.elixir-ls''
      @ conflict_events h ''sammkj.vscode-elixir-formatter''
      @ [RegisterCommand ''extension.copyDebugInfo'' CopyDebugInfo,
         CreateFileSystemWatcher watched_glob]"
  have "trace s @ preamble_events h
      @ [CreateFileSystemWatcher watched_glob, NewLanguageClient (launched_client h context),
         ClientStart (launched_client h context)]
      = trace (snd (testElixir h s)) @ ?mid
          @ [NewLanguageClient (launched_client h context),
             ClientStart (launched_client h context)]"
    by (simp add: preamble_events_def testElixir_eq)
  then have "activate h context s =
      (Inr (context\<lparr>subscriptions :=
                       subscriptions context @ [ClientHandle (launched_client h context)]\<rparr>),
       s\<lparr>trace :=
            trace (snd (testElixir h s)) @ ?mid
              @ [NewLanguageClient (launched_client h context),
                 ClientStart (launched_client h context)],
          languageClient := Some (launched_client h context),
          commands := commands s @ [''extension.copyDebugInfo'']\<rparr>)"
    using activate_eq [OF free, of h "context"] by simp
  then show "\<exists>client mid.
      activate h context s =
        (Inr (context\<lparr>subscriptions := subscriptions context @ [ClientHandle client]\<rparr>),
         s\<lparr>trace :=
              trace (snd (testElixir h s)) @ mid
                @ [NewLanguageClient client, ClientStart client],
            languageClient := Some client,
            commands := commands s @ [''extension.copyDebugInfo'']\<rparr>)"
    by blast
next
  assume taken: "''extension.copyDebugInfo'' \<in> set (commands s)"
  show "fst (activate h context s) = Inl (CommandAlreadyExists ''extension.copyDebugInfo'')"
    by (simp add: activate_taken [OF taken])
  show "languageClient (snd (activate h context s)) = languageClient s"
    by (simp add: activate_taken [OF taken])
  show "\<forall>client.
      NewLanguageClient client \<notin> set (events_since s (snd (activate h context s))) \<and>
      ClientStart client \<notin> set (events_since s (snd (activate h context s)))"
    using taken by (simp add: activate_events preamble_events_no_client)
qed

theorem activate_starts_client_unless_taken_witness:
  \<open>activate (example_host noisy_elixir which_nothing formatter_installed ''linux'')
     example_context init_state =
     (Inr (example_context\<lparr>subscriptions :=
             [ClientHandle
                (launched_client
                   (example_host noisy_elixir which_nothing formatter_installed ''linux'')
                   example_context)]\<rparr>),
      \<lparr>trace =
         [Exec ''elixir -e ""'',
          ShowErrorMessage extraneous_print_warning,
          ConsoleWarn (extraneous_print_log ''hello''),
          ShowErrorMessage (conflict_warning ''sammkj.vscode-elixir-formatter''),
          RegisterCommand ''extension.copyDebugInfo'' CopyDebugInfo,
          CreateFileSystemWatcher ''**/*.{ex,exs,erl,yrl,xrl,eex}'',
          NewLanguageClient
            (launched_client
               (example_host noisy_elixir which_nothing formatter_installed ''linux'')
               example_context),
          ClientStart
            (launched_client
               (example_host noisy_elixir which_nothing formatter_installed ''linux'')
               example_context)],
       languageClient =
         Some (launched_client
                 (example_host noisy_elixir which_nothing formatter_installed ''linux'')
                 example_context),
       commands = [''extension.copyDebugInfo'']\<rparr>) \<and>
   fst (activate (example_host noisy_elixir which_nothing formatter_installed ''linux'')
          example_context
          (snd (activate (example_host noisy_elixir which_nothing formatter_installed ''linux'')
                  example_context init_state)))
     = Inl (CommandAlreadyExists ''extension.copyDebugInfo'')\<close>
proof -
  let ?h = "example_host noisy_elixir which_nothing formatter_installed ''linux''"
  let ?s = "snd (activate ?h example_context init_state)"
  have free: "''extension.copyDebugInfo'' \<notin> set (commands init_state)"
    by (simp add: init_state_def)
  from activate_starts_client_unless_taken [of init_state ?h example_context] free
  obtain client mid where run:
    "activate ?h example_context init_state =
       (Inr (example_context\<lparr>subscriptions :=
               subscriptions example_context @ [ClientHandle client]\<rparr>),
        init_state\<lparr>trace :=
             trace (snd (testElixir ?h init_state)) @ mid
               @ [NewLanguageClient client, ClientStart client],
           languageClient := Some client,
           commands := commands init_state @ [''extension.copyDebugInfo'']\<rparr>)"
    by blast
  then have taken: "''extension.copyDebugInfo'' \<in> set (commands ?s)"
    by simp
  from activate_starts_client_unless_taken [of ?s ?h example_context] taken
  have again: "fst (activate ?h example_context ?s)
      = Inl (CommandAlreadyExists ''extension.copyDebugInfo'')"
    by blast
  have "activate ?h example_context init_state =
     (Inr (example_context\<lparr>subscriptions :=
             [ClientHandle (launched_client ?h example_context)]\<rparr>),
      \<lparr>trace =
         [Exec probe_cmd,
          ShowErrorMessage extraneous_print_warning,
          ConsoleWarn (extraneous_print_log ''hello''),
          ShowErrorMessage (conflict_warning ''sammkj.vscode-elixir-formatter''),
          RegisterCommand ''extension.copyDebugInfo'' CopyDebugInfo,
          CreateFileSystemWatcher watched_glob,
          NewLanguageClient (launched_client ?h example_context),
          ClientStart (launched_client ?h example_context)],
       languageClient = Some (launched_client ?h example_context),
       commands = [''extension.copyDebugInfo'']\<rparr>)"
    unfolding activate_eq [OF free]
    by (simp add: preamble_events_def probe_calls_def probe_result_def report_def
        conflict_events_def example_defs)
  with again show ?thesis by simp
qed

text \<open>
  Claim C4. Every client that an activation constructs has, as the command of its
  launcher, \<^verbatim>\<open>context.asAbsolutePath\<close> applied to
  \<^verbatim>\<open>./elixir-ls-release/language_server.bat\<close> when the platform value is \<^verbatim>\<open>win32\<close> and to
  \<^verbatim>\<open>./elixir-ls-release/language_server.sh\<close> for every other platform value; no arguments
  are given, and the debug launcher is the run launcher. When the resolution of the host
  keeps file names, the command ends in the batch-script name exactly on \<^verbatim>\<open>win32\<close> and in
  the shell-script name exactly elsewhere. Such a client is constructed, and stored in the
  module-level handle, by every activation that the registration of the command lets
  through.
\<close>

theorem activate_launcher_path:
  "(\<forall>client.
      NewLanguageClient client \<in> set (events_since s (snd (activate h context s))) \<longrightarrow>
      command (run (serverOptions client)) =
        asAbsolutePath context
          (''./elixir-ls-release/''
             @ (if os_platform h = ''win32'' then ''language_server.bat''
                else ''language_server.sh'')) \<and>
      args (run (serverOptions client)) = None \<and>
      debug (serverOptions client) = run (serverOptions client) \<and>
      (keeps_file_name (asAbsolutePath context) \<longrightarrow>
         suffix ''language_server.bat'' (command (run (serverOptions client)))
           = (os_platform h = ''win32'') \<and>
         suffix ''language_server.sh'' (command (run (serverOptions client)))
           = (os_platform h \<noteq> ''win32''))) \<and>
   (''extension.copyDebugInfo'' \<notin> set (commands s) \<longrightarrow>
      (\<exists>client.
         languageClient (snd (activate h context s)) = Some client \<and>
         NewLanguageClient client \<in> set (events_since s (snd (activate h context s)))))"
proof -
  let ?bat = "''language_server.bat''" and ?sh = "''language_server.sh''"
  let ?rel = "\<lambda>f. ''./elixir-ls-release/'' @ f"
  have names: "is_file_name ?bat" "is_file_name ?sh"
    by (simp_all add: is_file_name_def)
  have differ: "\<not> suffix ?bat (p @ ?sh)" "\<not> suffix ?sh (p @ ?bat)" for p :: string
    by (simp_all add: suffix_to_prefix)
  have ends: "suffix ?bat (asAbsolutePath context (?rel ?bat)) \<and>
      suffix ?sh (asAbsolutePath context (?rel ?sh))"
    if keeps: "keeps_file_name (asAbsolutePath context)"
  proof -
    have "suffix f (asAbsolutePath context (?rel f))" if "is_file_name f" for f
      using keeps that
        spec [OF spec [OF keeps [unfolded keeps_file_name_def], of "''./elixir-ls-release''"], of f]
      by simp
    with names show ?thesis by blast
  qed
  have only: "\<not> suffix ?sh (asAbsolutePath context (?rel ?bat)) \<and>
      \<not> suffix ?bat (asAbsolutePath context (?rel ?sh))"
    if keeps: "keeps_file_name (asAbsolutePath context)"
  proof -
    from ends [OF keeps] obtain p q where
      "asAbsolutePath context (?rel ?bat) = p @ ?bat" "asAbsolutePath context (?rel ?sh) = q @ ?sh"
      unfolding suffix_def by blast
    with differ show ?thesis by metis
  qed
  have built: "client = launched_client h context"
    if "NewLanguageClient client \<in> set (events_since s (snd (activate h context s)))"
    for client
    using that by (simp add: activate_events preamble_events_no_client split: if_splits)
  have path: "command (run (serverOptions (launched_client h context))) =
        asAbsolutePath context (?rel (if os_platform h = ''win32'' then ?bat else ?sh)) \<and>
      args (run (serverOptions (launched_client h context))) = None \<and>
      debug (serverOptions (launched_client h context))
        = run (serverOptions (launched_client h context)) \<and>
      (keeps_file_name (asAbsolutePath context) \<longrightarrow>
         suffix ?bat (command (run (serverOptions (launched_client h context))))
           = (os_platform h = ''win32'') \<and>
         suffix ?sh (command (run (serverOptions (launched_client h context))))
           = (os_platform h \<noteq> ''win32''))"
    using ends only by (simp add: launched_client_def Let_def)
  have started: "\<exists>client.
      languageClient (snd (activate h context s)) = Some client \<and>
      NewLanguageClient client \<in> set (events_since s (snd (activate h context s)))"
    if free: "''extension.copyDebugInfo'' \<notin> set (commands s)"
    unfolding activate_events using free by (simp add: activate_eq [OF free])
  from built path started show ?thesis by blast
qed

theorem activate_launcher_path_witness:
  "keeps_file_name (asAbsolutePath example_context) \<and>
   (\<exists>client.
      languageClient
        (snd (activate (example_host quiet_elixir which_nothing no_extensions ''win32'')
                example_context init_state)) = Some client \<and>
      command (run (serverOptions client)) =
        ''/home/u/.vscode/extensions/elixir-ls-fork/elixir-ls-release/language_server.bat'' \<and>
      suffix ''language_server.bat'' (command (run (serverOptions client)))) \<and>
   (\<exists>client.
      languageClient
        (snd (activate (example_host quiet_elixir which_nothing no_extensions ''linux'')
                example_context init_state)) = Some client \<and>
      command (run (serverOptions client)) =
        ''/home/u/.vscode/extensions/elixir-ls-fork/elixir-ls-release/language_server.sh'' \<and>
      suffix ''language_server.sh'' (command (run (serverOptions client))))"
proof -
  let ?win = "example_host quiet_elixir which_nothing no_extensions ''win32''"
  let ?linux = "example_host quiet_elixir which_nothing no_extensions ''linux''"
  have "suffix f (asAbsolutePath example_context (d @ ''/'' @ f))" for d f
  proof (cases d)
    case Nil
    then show ?thesis by (simp add: example_context_def suffix_def)
  next
    case (Cons c d')
    then show ?thesis by (cases d') (auto simp: example_context_def suffix_def)
  qed
  then have keeps: "keeps_file_name (asAbsolutePath example_context)"
    by (simp add: keeps_file_name_def)
  have platform: "os_platform ?win = ''win32''" "os_platform ?linux \<noteq> ''win32''"
    by (simp_all add: example_host_def)
  have free: "''extension.copyDebugInfo'' \<notin> set (commands init_state)"
    by (simp add: init_state_def)
  from activate_launcher_path [of init_state ?win example_context] keeps platform(1) free
  have win: "\<exists>client.
      languageClient (snd (activate ?win example_context init_state)) = Some client \<and>
      command (run (serverOptions client)) =
        ''/home/u/.vscode/extensions/elixir-ls-fork/elixir-ls-release/language_server.bat'' \<and>
      suffix ''language_server.bat'' (command (run (serverOptions client)))"
    by (auto simp: example_context_def)
  from activate_launcher_path [of init_state ?linux example_context] keeps platform(2) free
  have linux: "\<exists>client.
      languageClient (snd (activate ?linux example_context init_state)) = Some client \<and>
      command (run (serverOptions client)) =
        ''/home/u/.vscode/extensions/elixir-ls-fork/elixir-ls-release/language_server.sh'' \<and>
      suffix ''language_server.sh'' (command (run (serverOptions client)))"
    by (auto simp: example_context_def)
  from keeps win linux show ?thesis by blast
qed

text \<open>
  Claim C10. Every client that an activation constructs has the document selector of two
  filters, language \<^verbatim>\<open>elixir\<close> with scheme \<^verbatim>\<open>file\<close> and language \<^verbatim>\<open>elixir\<close> with scheme
  \<^verbatim>\<open>untitled\<close>, which selects exactly the documents of that language with one of those
  schemes; its synchronised configuration section is \<^verbatim>\<open>elixirLS\<close>; its file events are
  one watcher for the glob \<^verbatim>\<open>**/*.{ex,exs,erl,yrl,xrl,eex}\<close>; and its output channel is
  revealed on \<open>Never\<close>. No activation creates a watcher for another glob. Every activation
  that the registration of the command lets through constructs such a client, stores it
  in the module-level handle, and creates exactly one watcher.
\<close>

theorem activate_client_configuration:
  "(\<forall>client.
      NewLanguageClient client \<in> set (events_since s (snd (activate h context s))) \<longrightarrow>
      documentSelector (clientOptions client) =
        [\<lparr>language = ''elixir'', scheme = ''file''\<rparr>,
         \<lparr>language = ''elixir'', scheme = ''untitled''\<rparr>] \<and>
      (\<forall>l u. selects (documentSelector (clientOptions client)) l u
               = (l = ''elixir'' \<and> (u = ''file'' \<or> u = ''untitled''))) \<and>
      configurationSection (synchronize (clientOptions client)) = ''elixirLS'' \<and>
      fileEvents (synchronize (clientOptions client)) =
        [\<lparr>globPattern = ''**/*.{ex,exs,erl,yrl,xrl,eex}'', ignoreCreateEvents = False,
          ignoreChangeEvents = False, ignoreDeleteEvents = False\<rparr>] \<and>
      revealOutputChannelOn (clientOptions client) = Never) \<and>
   (\<forall>g. CreateFileSystemWatcher g \<in> set (events_since s (snd (activate h context s))) \<longrightarrow>
      g = ''**/*.{ex,exs,erl,yrl,xrl,eex}'') \<and>
   (''extension.copyDebugInfo'' \<notin> set (commands s) \<longrightarrow>
      (\<exists>client.
         languageClient (snd (activate h context s)) = Some client \<and>
         NewLanguageClient client \<in> set (events_since s (snd (activate h context s)))) \<and>
      filter is_watcher (events_since s (snd (activate h context s))) =
        [CreateFileSystemWatcher ''**/*.{ex,exs,erl,yrl,xrl,eex}''])"
proof -
  have built: "client = launched_client h context"
    if "NewLanguageClient client \<in> set (events_since s (snd (activate h context s)))"
    for client
    using that by (simp add: activate_events preamble_events_no_client split: if_splits)
  have config: "documentSelector (clientOptions (launched_client h context)) =
        [\<lparr>language = ''elixir'', scheme = ''file''\<rparr>,
         \<lparr>language = ''elixir'', scheme = ''untitled''\<rparr>] \<and>
      (\<forall>l u. selects (documentSelector (clientOptions (launched_client h context))) l u
               = (l = ''elixir'' \<and> (u = ''file'' \<or> u = ''untitled''))) \<and>
      configurationSection (synchronize (clientOptions (launched_client h context)))
        = ''elixirLS'' \<and>
      fileEvents (synchronize (clientOptions (launched_client h context))) =
        [\<lparr>globPattern = watched_glob, ignoreCreateEvents = False,
          ignoreChangeEvents = False, ignoreDeleteEvents = False\<rparr>] \<and>
      revealOutputChannelOn (clientOptions (launched_client h context)) = Never"
    by (auto simp: launched_client_def Let_def)
  have globs: "g = watched_glob"
    if "CreateFileSystemWatcher g \<in> set (events_since s (snd (activate h context s)))" for g
    using that by (simp add: activate_events preamble_events_no_client split: if_splits)
  have started: "(\<exists>client.
        languageClient (snd (activate h context s)) = Some client \<and>
        NewLanguageClient client \<in> set (events_since s (snd (activate h context s)))) \<and>
      filter is_watcher (events_since s (snd (activate h context s))) =
        [CreateFileSystemWatcher watched_glob]"
    if free: "''extension.copyDebugInfo'' \<notin> set (commands s)"
    unfolding activate_events using free
    by (simp add: activate_eq [OF free] preamble_events_no_client)
  from built config globs started show ?thesis by blast
qed

theorem activate_client_configuration_witness:
  "(\<exists>client.
      languageClient
        (snd (activate (example_host quiet_elixir which_nothing no_extensions ''linux'')
                example_context init_state)) = Some client \<and>
      documentSelector (clientOptions client) =
        [\<lparr>language = ''elixir'', scheme = ''file''\<rparr>,
         \<lparr>language = ''elixir'', scheme = ''untitled''\<rparr>] \<and>
      configurationSection (synchronize (clientOptions client)) = ''elixirLS'' \<and>
      revealOutputChannelOn (clientOptions client) = Never) \<and>
   filter is_watcher
     (events_since init_state
        (snd (activate (example_host quiet_elixir which_nothing no_extensions ''linux'')
                example_context init_state))) =
     [CreateFileSystemWatcher ''**/*.{ex,exs,erl,yrl,xrl,eex}'']"
proof -
  let ?h = "example_host quiet_elixir which_nothing no_extensions ''linux''"
  have free: "''extension.copyDebugInfo'' \<notin> set (commands init_state)"
    by (simp add: init_state_def)
  from activate_client_configuration [of init_state ?h example_context] free
  show ?thesis by blast
qed

section \<open>Deactivation\<close>

text \<open>
  Claim C7. In the state of a module whose \<open>activate\<close> has not run, and in any state whose
  client handle is unset, \<open>deactivate\<close> returns \<^verbatim>\<open>undefined\<close> (\<open>None\<close>) and leaves the state
  as it was: no call of \<open>stop\<close> is recorded, and there is no error result. When the handle
  holds a client, \<open>deactivate\<close> returns what \<open>stop\<close> of that client returns.
\<close>

theorem deactivate_cases:
  "deactivate init_state = (None, init_state) \<and>
   (languageClient s = None \<longrightarrow> deactivate s = (None, s)) \<and>
   (\<forall>client. languageClient s = Some client \<longrightarrow>
      deactivate s = (Some (fst (stop client s)), snd (stop client s)) \<and>
      deactivate s = (Some (Stopping client), s\<lparr>trace := trace s @ [ClientStop client]\<rparr>))"
  by (simp add: deactivate_def init_state_def stop_def emit_def)

theorem deactivate_cases_witness:
  "deactivate init_state = (None, init_state) \<and>
   fst (deactivate (snd (activate (example_host quiet_elixir which_nothing no_extensions ''linux'')
                           example_context init_state)))
     = Some (Stopping (launched_client
                         (example_host quiet_elixir which_nothing no_extensions ''linux'')
                         example_context))"
proof -
  let ?h = "example_host quiet_elixir which_nothing no_extensions ''linux''"
  let ?s = "snd (activate ?h example_context init_state)"
  have unset: "languageClient init_state = None"
    by (simp add: init_state_def)
  have "''extension.copyDebugInfo'' \<notin> set (commands init_state)"
    by (simp add: init_state_def)
  then have set: "languageClient ?s = Some (launched_client ?h example_context)"
    by (simp add: activate_eq)
  from deactivate_cases [of init_state] unset
  have "deactivate init_state = (None, init_state)" by blast
  moreover from deactivate_cases [of ?s] set
  have "deactivate ?s = (Some (Stopping (launched_client ?h example_context)),
      ?s\<lparr>trace := trace ?s @ [ClientStop (launched_client ?h example_context)]\<rparr>)"
    by blast
  ultimately show ?thesis by simp
qed

section \<open>The debug-info command\<close>

text \<open>
  Claim C8. When the registry has no extension \<^verbatim>\<open>jakebecker.elixir-ls\<close>, the debug-info
  command ends in an error for every host and state: the \<open>TypeError\<close> of reading
  \<^verbatim>\<open>packageJSON\<close> on \<^verbatim>\<open>undefined\<close> when the version query ran. The only event of the run is
  the process execution; nothing is written to the clipboard.
\<close>

theorem copyDebugInfo_missing_extension:
  assumes "installed h ''jakebecker.elixir-ls'' = None"
  shows "(\<exists>e. fst (copyDebugInfo h s) = Inl e) \<and>
         (\<forall>v. run_process h ''elixir --version'' = Some v \<longrightarrow>
            fst (copyDebugInfo h s) = Inl (TypeError ''packageJSON'')) \<and>
         events_since s (snd (copyDebugInfo h s)) = [Exec ''elixir --version''] \<and>
         (\<forall>m. ClipboardWriteText m \<notin> set (events_since s (snd (copyDebugInfo h s))))"
proof -
  have run: "copyDebugInfo h s =
      (case run_process h ''elixir --version'' of
         None \<Rightarrow> Inl (ChildProcessError ''elixir --version'')
       | Some v \<Rightarrow> Inl (TypeError ''packageJSON''),
       s\<lparr>trace := trace s @ [Exec ''elixir --version'']\<rparr>)"
    using assms by (simp add: copyDebugInfo_def call_defs split: option.splits)
  have ev: "events_since s (snd (copyDebugInfo h s)) = [Exec ''elixir --version'']"
    by (rule events_since_append) (simp add: run)
  show ?thesis
    unfolding ev by (simp add: run split: option.splits)
qed

theorem copyDebugInfo_missing_extension_witness:
  "copyDebugInfo (example_host quiet_elixir which_nothing fork_installed ''linux'') init_state =
     (Inl (TypeError ''packageJSON''),
      \<lparr>trace = [Exec ''elixir --version''], languageClient = None, commands = []\<rparr>)"
proof -
  let ?h = "example_host quiet_elixir which_nothing fork_installed ''linux''"
  have missing: "installed ?h ''jakebecker.elixir-ls'' = None"
    and runs: "run_process ?h ''elixir --version'' = Some ''Elixir 1.10.4''"
    by (simp_all add: example_defs)
  from copyDebugInfo_missing_extension [OF missing, of init_state] runs
  have "fst (copyDebugInfo ?h init_state) = Inl (TypeError ''packageJSON'')"
    by blast
  moreover have "snd (copyDebugInfo ?h init_state) =
      \<lparr>trace = [Exec ''elixir --version''], languageClient = None, commands = []\<rparr>"
    by (simp add: copyDebugInfo_def call_defs example_defs)
  ultimately show ?thesis by (simp add: prod_eq_iff)
qed

text \<open>
  Claim C9. When the command line \<^verbatim>\<open>elixir --version\<close> cannot be run, the debug-info
  command ends in the error of \<^verbatim>\<open>execSync\<close>. The only event of the run is that process
  execution: no path search, no notification, no clipboard write. (The witness is a
  machine where the probe succeeds through the resolved path.)
\<close>

theorem copyDebugInfo_version_query_unguarded:
  assumes "run_process h ''elixir --version'' = None"
  shows "copyDebugInfo h s =
           (Inl (ChildProcessError ''elixir --version''),
            s\<lparr>trace := trace s @ [Exec ''elixir --version'']\<rparr>) \<and>
         events_since s (snd (copyDebugInfo h s)) = [Exec ''elixir --version''] \<and>
         Which ''elixir'' \<notin> set (events_since s (snd (copyDebugInfo h s))) \<and>
         (\<forall>m. ShowInformationMessage m \<notin> set (events_since s (snd (copyDebugInfo h s))) \<and>
              ShowErrorMessage m \<notin> set (events_since s (snd (copyDebugInfo h s))) \<and>
              ClipboardWriteText m \<notin> set (events_since s (snd (copyDebugInfo h s))))"
proof -
  have run: "copyDebugInfo h s =
      (Inl (ChildProcessError ''elixir --version''),
       s\<lparr>trace := trace s @ [Exec ''elixir --version'']\<rparr>)"
    using assms by (simp add: copyDebugInfo_def call_defs)
  have ev: "events_since s (snd (copyDebugInfo h s)) = [Exec ''elixir --version'']"
    by (rule events_since_append) (simp add: run)
  show ?thesis
    unfolding ev by (simp add: run)
qed

theorem copyDebugInfo_version_query_unguarded_witness:
  "fst (testElixir (example_host absolute_elixir which_opt upstream_installed ''linux'') init_state)
     = True \<and>
   copyDebugInfo (example_host absolute_elixir which_opt upstream_installed ''linux'') init_state =
     (Inl (ChildProcessError ''elixir --version''),
      \<lparr>trace = [Exec ''elixir --version''], languageClient = None, commands = []\<rparr>)"
proof -
  let ?h = "example_host absolute_elixir which_opt upstream_installed ''linux''"
  have bare: "run_process ?h ''elixir --version'' = None"
    by (simp add: example_defs)
  have probe: "fst (testElixir ?h init_state) = True"
    by (simp add: testElixir_eq probe_result_def example_defs truthy_def js_string_def)
  from copyDebugInfo_version_query_unguarded [OF bare, of init_state] probe
  show ?thesis by (simp add: init_state_def)
qed

text \<open>
  Claim C6, at a host the claim does not survive: \<^verbatim>\<open>elixir --version\<close> prints a version,
  the registry holds an extension under another identifier and none under
  \<^verbatim>\<open>jakebecker.elixir-ls\<close>. The command ends in a \<open>TypeError\<close>; no notification is shown
  and nothing is written to the clipboard.
\<close>

theorem copyDebugInfo_fork_only_example:
  "copyDebugInfo (example_host quiet_elixir which_nothing fork_installed ''darwin'') init_state =
     (Inl (TypeError ''packageJSON''),
      \<lparr>trace = [Exec ''elixir --version''], languageClient = None, commands = []\<rparr>) \<and>
   filter is_message
     (trace (snd (copyDebugInfo (example_host quiet_elixir which_nothing fork_installed ''darwin'')
                    init_state))) = []"
  by (simp add: copyDebugInfo_def call_defs example_defs)



text \<open>
  Where the version query runs and the lookup returns an extension, the command succeeds:
  the clipboard receives the report, which contains the output of the version query, the version of the extension's manifest, the platform and the release, and
  the notification shown is \<^verbatim>\<open>Copied to clipboard: \<close> followed by the same text.
\<close>

lemma copyDebugInfo_report:
  assumes "run_process h ''elixir --version'' = Some v"
    and "installed h ''jakebecker.elixir-ls'' = Some ext"
  shows "\<exists>message.
           copyDebugInfo h s =
             (Inr (),
              s\<lparr>trace := trace s @
                   [Exec ''elixir --version'',
                    ShowInformationMessage (''Copied to clipboard: '' @ message),
                    ClipboardWriteText message]\<rparr>) \<and>
           sublist v message \<and> sublist (version (packageJSON ext)) message \<and>
           sublist (os_platform h) message \<and> sublist (os_release h) message"
proof -
  let ?a = "[CHR 0x0A] @ ''  * Elixir & Erlang versions (elixir --version): ''"
  let ?b = "[CHR 0x0A] @ ''  * VSCode ElixirLS Fork version: ''"
  let ?c = "[CHR 0x0A] @ ''  * Operating System Version: ''"
  let ?d = "[CHR 0x0A] @ ''  ''"
  let ?m = "?a @ v @ ?b @ version (packageJSON ext) @ ?c @ os_platform h @ '' '' @ os_release h @ ?d"
  have run: "copyDebugInfo h s =
      (Inr (),
       s\<lparr>trace := trace s @
            [Exec ''elixir --version'', ShowInformationMessage (''Copied to clipboard: '' @ ?m),
             ClipboardWriteText ?m]\<rparr>)"
    using assms by (simp add: copyDebugInfo_def call_defs Let_def)
  have "sublist v ?m"
    unfolding sublist_def by blast
  moreover have "?m = (?a @ v @ ?b) @ version (packageJSON ext)
      @ (?c @ os_platform h @ '' '' @ os_release h @ ?d)"
    by simp
  then have "sublist (version (packageJSON ext)) ?m"
    unfolding sublist_def by blast
  moreover have "?m = (?a @ v @ ?b @ version (packageJSON ext) @ ?c) @ os_platform h
      @ ('' '' @ os_release h @ ?d)"
    by simp
  then have "sublist (os_platform h) ?m"
    unfolding sublist_def by blast
  moreover have "?m = (?a @ v @ ?b @ version (packageJSON ext) @ ?c @ os_platform h @ '' '')
      @ os_release h @ ?d"
    by simp
  then have "sublist (os_release h) ?m"
    unfolding sublist_def by blast
  ultimately show ?thesis using run by blast
qed


end
